theory Spec2Isabelle
  imports Main
begin

section \<open>The diagnostic print adapter \<open>printLLVMError\<close> of torchmlir_debugger.h\<close>

text \<open>
  The header holds one function template. It declares a local \<open>std::stringstream\<close>,
  inserts the message, hands the address of the stream to a printing function as the
  opaque user data of a string callback, and finally inserts the contents of the stream
  and then a newline into \<open>llvm::errs()\<close>.

  The model passes the state explicitly. A C++ \<open>char\<close> is a HOL \<^typ>\<open>char\<close> (a byte), a
  \<open>std::string\<close> is a \<^typ>\<open>string\<close>. A pointer is an address. The byte count of a chunk
  (\<open>size_t\<close>) is a natural number: the code performs no arithmetic on it, and the count of
  a chunk that exists in memory passes unchanged into \<open>std::ostream::write\<close>.
\<close>

subsection \<open>Data\<close>

type_synonym addr = nat

text \<open>\<open>MlirStringRef\<close> of the MLIR C API: a pointer and a length, not null-terminated.\<close>

record MlirStringRef =
  data :: addr
  length_ref :: nat

text \<open>
  The state the call runs in: the bytes that chunk pointers refer to, the live local
  \<open>std::stringstream\<close> objects (a stack of their contents; the address of a stream is its
  position from the bottom), and the insertions made into \<open>llvm::errs()\<close> so far, one
  element for each \<open><<\<close> in the order they were made.
  The field \<open>calls\<close> belongs to the environment: no definition of the adapter reads or
  writes it, only the instrumented printing function \<open>counted\<close> below does.
\<close>

record world =
  memory :: "addr \<Rightarrow> char"
  sstreams :: "string list"
  errs_log :: "string list"
  calls :: nat

text \<open>The bytes the diagnostic stream has received so far.\<close>

definition errs :: "world \<Rightarrow> string" where
  "errs w = concat (errs_log w)"

text \<open>
  \<open>MlirStringCallback\<close> is \<open>void (*)(MlirStringRef, void *)\<close>; the first parameter of
  \<open>printLLVMError\<close> is \<open>void (*)(printType, MlirStringCallback, void *)\<close>. A call that
  does not return normally (it runs forever, or its behaviour is undefined) has the
  result \<open>None\<close>.
\<close>

type_synonym MlirStringCallback = "MlirStringRef \<Rightarrow> addr \<Rightarrow> world \<Rightarrow> world option"

type_synonym 'p printer = "'p \<Rightarrow> MlirStringCallback \<Rightarrow> addr \<Rightarrow> world \<Rightarrow> world option"

subsection \<open>The library operations the code uses\<close>

text \<open>The \<open>n\<close> bytes at \<open>p\<close>, \<open>p + 1\<close>, ..., \<open>p + n - 1\<close>.\<close>

definition read_bytes :: "(addr \<Rightarrow> char) \<Rightarrow> addr \<Rightarrow> nat \<Rightarrow> string" where
  "read_bytes mem p n = map mem [p ..< p + n]"

text \<open>
  Inserting bytes into the stream at address \<open>ssp\<close> (\<open>ss << message\<close> and
  \<open>ssp->write(p, n)\<close>) appends them to its contents. An address that is not a live
  stream is undefined behaviour.
\<close>

definition sstream_insert :: "addr \<Rightarrow> string \<Rightarrow> world \<Rightarrow> world option" where
  "sstream_insert ssp bs w =
     (if ssp < length (sstreams w)
      then Some (w\<lparr>sstreams := (sstreams w)[ssp := sstreams w ! ssp @ bs]\<rparr>)
      else None)"

text \<open>One insertion into the diagnostic stream: \<open>llvm::errs() << bs\<close>.\<close>

definition errs_insert :: "string \<Rightarrow> world \<Rightarrow> world" where
  "errs_insert bs w = w\<lparr>errs_log := errs_log w @ [bs]\<rparr>"

definition newline :: char where
  "newline = CHR 0x0A"

subsection \<open>The code\<close>

text \<open>
  \<^verbatim>\<open>
  auto stringCallback = [](MlirStringRef s, void *stringCallbackUserData) {
    auto *ssp = static_cast<std::stringstream *>(stringCallbackUserData);
    ssp->write(s.data, s.length);
  };
  \<close>
\<close>

definition stringCallback :: MlirStringCallback where
  "stringCallback s stringCallbackUserData w =
     (let ssp = stringCallbackUserData
      in sstream_insert ssp (read_bytes (memory w) (data s) (length_ref s)) w)"

text \<open>
  \<^verbatim>\<open>
  std::stringstream ss;
  ss << message;
  ...
  func(obj, stringCallback, static_cast<void *>(&ss));
  llvm::errs() << ss.str() << "\n";
  \<close>
  The stream is a local: it is pushed at its declaration and popped when the function
  returns. The last statement makes two insertions into \<open>llvm::errs()\<close>, the contents of
  the stream and then the newline. The function returns \<open>void\<close>, so the result is the new
  state alone.
\<close>

definition printLLVMError :: "'p printer \<Rightarrow> 'p \<Rightarrow> string \<Rightarrow> world \<Rightarrow> world option" where
  "printLLVMError func obj message w =
     (let ss = length (sstreams w);
          w1 = w\<lparr>sstreams := sstreams w @ [[]]\<rparr>
      in case sstream_insert ss message w1 of
           None \<Rightarrow> None
         | Some w2 \<Rightarrow>
             (case func obj stringCallback ss w2 of
                None \<Rightarrow> None
              | Some w3 \<Rightarrow>
                  if ss < length (sstreams w3)
                  then (let w4 = errs_insert (sstreams w3 ! ss) w3;
                            w5 = errs_insert [newline] w4
                        in Some (w5\<lparr>sstreams := take ss (sstreams w5)\<rparr>))
                  else None))"

subsection \<open>Printing functions\<close>

text \<open>
  The printing function is a parameter. The claims are about printing functions that
  invoke the callback they are given, with the user data they are given, on a finite
  sequence of chunks, and then return. Between two invocations such a function may fill
  the buffer its chunks point into, so what it does is a finite list of actions.
\<close>

datatype action = Store addr char | Emit MlirStringRef

fun perform :: "MlirStringCallback \<Rightarrow> addr \<Rightarrow> action list \<Rightarrow> world \<Rightarrow> world option" where
  "perform cb ud [] w = Some w"
| "perform cb ud (Store p b # as) w = perform cb ud as (w\<lparr>memory := (memory w)(p := b)\<rparr>)"
| "perform cb ud (Emit s # as) w =
     (case cb s ud w of None \<Rightarrow> None | Some w' \<Rightarrow> perform cb ud as w')"

text \<open>\<open>behaves func obj as\<close>: called on \<open>obj\<close>, \<open>func\<close> performs the actions \<open>as\<close> and returns.\<close>

definition behaves :: "'p printer \<Rightarrow> 'p \<Rightarrow> action list \<Rightarrow> bool" where
  "behaves func obj as \<longleftrightarrow> (\<forall>cb ud w. func obj cb ud w = perform cb ud as w)"

text \<open>The byte strings of the chunks the callback receives, in order, from a start memory.\<close>

fun received :: "(addr \<Rightarrow> char) \<Rightarrow> action list \<Rightarrow> string list" where
  "received mem [] = []"
| "received mem (Store p b # as) = received (mem(p := b)) as"
| "received mem (Emit s # as) = read_bytes mem (data s) (length_ref s) # received mem as"

text \<open>The memory after the printing function's own stores.\<close>

fun stores :: "action list \<Rightarrow> (addr \<Rightarrow> char) \<Rightarrow> (addr \<Rightarrow> char)" where
  "stores [] mem = mem"
| "stores (Store p b # as) mem = stores as (mem(p := b))"
| "stores (Emit s # as) mem = stores as mem"

text \<open>
  A printing function that watches the diagnostic stream. It performs a list of actions
  as \<open>emitter\<close> below does, and looks at the insertions made into \<open>llvm::errs()\<close> when it
  is entered, before each of its actions (so after each callback invocation too) and
  before it returns. Where they do not satisfy \<open>P\<close> it stops for good and never returns.
\<close>

fun perform_observing ::
  "(string list \<Rightarrow> bool) \<Rightarrow> MlirStringCallback \<Rightarrow> addr \<Rightarrow> action list \<Rightarrow> world \<Rightarrow> world option" where
  "perform_observing P cb ud [] w = (if P (errs_log w) then Some w else None)"
| "perform_observing P cb ud (Store p b # as) w =
     (if P (errs_log w)
      then perform_observing P cb ud as (w\<lparr>memory := (memory w)(p := b)\<rparr>)
      else None)"
| "perform_observing P cb ud (Emit s # as) w =
     (if P (errs_log w)
      then (case cb s ud w of None \<Rightarrow> None | Some w' \<Rightarrow> perform_observing P cb ud as w')
      else None)"

definition observing :: "(string list \<Rightarrow> bool) \<Rightarrow> action list \<Rightarrow> 'p printer" where
  "observing P as obj cb ud w = perform_observing P cb ud as w"

text \<open>The printing function that performs a given list of actions, whatever the object.\<close>

definition emitter :: "action list \<Rightarrow> 'p printer" where
  "emitter as obj cb ud w = perform cb ud as w"

text \<open>A printing function that never returns.\<close>

definition hangs :: "'p printer" where
  "hangs obj cb ud w = None"

text \<open>A printing function instrumented to count how often it is entered.\<close>

definition counted :: "'p printer \<Rightarrow> 'p printer" where
  "counted func obj cb ud w = func obj cb ud (w\<lparr>calls := Suc (calls w)\<rparr>)"

text \<open>Memory holding the bytes of a string from address 0 on, and zero bytes beyond.\<close>

definition memory_of :: "string \<Rightarrow> addr \<Rightarrow> char" where
  "memory_of bs p = (if p < length bs then bs ! p else CHR 0x00)"

text \<open>The number of lines of a text: one for each newline byte.\<close>

definition line_count :: "string \<Rightarrow> nat" where
  "line_count bs = count_list bs newline"

text \<open>A start state for examples: the given bytes in memory, no live stream, nothing printed.\<close>

definition world0 :: "string \<Rightarrow> world" where
  "world0 bs = \<lparr>memory = memory_of bs, sstreams = [], errs_log = [], calls = 0\<rparr>"

section \<open>Properties\<close>

subsection \<open>Reading and inserting\<close>

lemma length_read_bytes: "length (read_bytes mem p n) = n"
  by (simp add: read_bytes_def)

lemma nth_read_bytes: "i < n \<Longrightarrow> read_bytes mem p n ! i = mem (p + i)"
  by (simp add: read_bytes_def)

lemma errs_record: "errs \<lparr>memory = m, sstreams = ss, errs_log = l, calls = n\<rparr> = concat l"
  by (simp add: errs_def)

lemma stringCallback_live:
  "ud < length (sstreams w) \<Longrightarrow>
   stringCallback s ud w =
     Some (w\<lparr>sstreams := (sstreams w)[ud := sstreams w ! ud @ read_bytes (memory w) (data s) (length_ref s)]\<rparr>)"
  by (simp add: stringCallback_def sstream_insert_def)

subsection \<open>The callback phase\<close>

lemma perform_stringCallback:
  "ud < length (sstreams w) \<Longrightarrow>
   perform stringCallback ud as w =
     Some (w\<lparr>memory := stores as (memory w),
              sstreams := (sstreams w)[ud := sstreams w ! ud @ concat (received (memory w) as)]\<rparr>)"
proof (induction as arbitrary: w)
  case Nil
  then show ?case by simp
next
  case (Cons a as)
  show ?case
  proof (cases a)
    case (Store p b)
    from Cons.prems have "ud < length (sstreams (w\<lparr>memory := (memory w)(p := b)\<rparr>))" by simp
    from Cons.IH [OF this] Store show ?thesis by (simp add: fun_upd_def)
  next
    case (Emit s)
    let ?w' = "w\<lparr>sstreams := (sstreams w)[ud := sstreams w ! ud @ read_bytes (memory w) (data s) (length_ref s)]\<rparr>"
    from Cons.prems have live: "ud < length (sstreams ?w')" by simp
    from Cons.prems have "stringCallback s ud w = Some ?w'" by (rule stringCallback_live)
    with Cons.IH [OF live] Emit Cons.prems show ?thesis by simp
  qed
qed

text \<open>The watching printing function sees the same insertions at every look.\<close>

lemma perform_observing_stringCallback:
  "ud < length (sstreams w) \<Longrightarrow>
   perform_observing P stringCallback ud as w =
     (if P (errs_log w) then perform stringCallback ud as w else None)"
proof (induction as arbitrary: w)
  case Nil
  then show ?case by simp
next
  case (Cons a as)
  show ?case
  proof (cases a)
    case (Store p b)
    with Cons.prems Cons.IH [of "w\<lparr>memory := (memory w)(p := b)\<rparr>"] show ?thesis by simp
  next
    case (Emit s)
    let ?w' = "w\<lparr>sstreams := (sstreams w)[ud := sstreams w ! ud @ read_bytes (memory w) (data s) (length_ref s)]\<rparr>"
    from Cons.prems have cb: "stringCallback s ud w = Some ?w'" by (rule stringCallback_live)
    from Cons.prems have "ud < length (sstreams ?w')" by simp
    from Cons.IH [OF this] cb Emit show ?thesis by simp
  qed
qed

subsection \<open>The whole call\<close>

text \<open>The call as one invocation of the printing function between the seeding and the output.\<close>

lemma printLLVMError_unfold:
  "printLLVMError func obj message w =
     (case func obj stringCallback (length (sstreams w)) (w\<lparr>sstreams := sstreams w @ [message]\<rparr>) of
        None \<Rightarrow> None
      | Some w3 \<Rightarrow>
          if length (sstreams w) < length (sstreams w3)
          then Some (w3\<lparr>errs_log := errs_log w3 @ [sstreams w3 ! length (sstreams w), [newline]],
                        sstreams := take (length (sstreams w)) (sstreams w3)\<rparr>)
          else None)"
  by (simp add: printLLVMError_def sstream_insert_def errs_insert_def Let_def split: option.splits)

lemma printLLVMError_behaves:
  assumes "behaves func obj as"
  shows "printLLVMError func obj message w =
           Some (w\<lparr>memory := stores as (memory w),
                    errs_log := errs_log w @ [message @ concat (received (memory w) as), [newline]]\<rparr>)"
proof -
  let ?ss = "length (sstreams w)"
  let ?w2 = "w\<lparr>sstreams := sstreams w @ [message]\<rparr>"
  have live: "?ss < length (sstreams ?w2)" by simp
  from assms have "func obj stringCallback ?ss ?w2 = perform stringCallback ?ss as ?w2"
    by (simp add: behaves_def)
  also note perform_stringCallback [OF live]
  finally show ?thesis
    by (simp add: printLLVMError_unfold)
qed

lemma errs_after_call:
  "errs (w\<lparr>memory := m, errs_log := errs_log w @ [text, [newline]]\<rparr>) = errs w @ text @ [newline]"
  by (simp add: errs_def)

lemma printLLVMError_observing:
  "printLLVMError (observing P as) obj message w =
     (if P (errs_log w)
      then Some (w\<lparr>memory := stores as (memory w),
                    errs_log := errs_log w @ [message @ concat (received (memory w) as), [newline]]\<rparr>)
      else None)"
proof -
  let ?ss = "length (sstreams w)"
  let ?w2 = "w\<lparr>sstreams := sstreams w @ [message]\<rparr>"
  have live: "?ss < length (sstreams ?w2)" by simp
  have "observing P as obj stringCallback ?ss ?w2 =
      (if P (errs_log ?w2) then perform stringCallback ?ss as ?w2 else None)"
    by (simp only: observing_def perform_observing_stringCallback [OF live])
  also note perform_stringCallback [OF live]
  finally show ?thesis
    by (simp add: printLLVMError_unfold)
qed

lemma behaves_emitter: "behaves (emitter as) obj as"
  by (simp add: behaves_def emitter_def)

lemma printLLVMError_hangs: "printLLVMError hangs obj message w = None"
  by (simp add: printLLVMError_unfold hangs_def)

lemma received_no_Emit: "\<forall>s. Emit s \<notin> set as \<Longrightarrow> received mem as = []"
proof (induction as arbitrary: mem)
  case Nil
  then show ?case by simp
next
  case (Cons a as)
  then show ?case by (cases a) auto
qed

lemma stores_no_Store: "\<forall>p b. Store p b \<notin> set as \<Longrightarrow> stores as mem = mem"
proof (induction as arbitrary: mem)
  case Nil
  then show ?case by simp
next
  case (Cons a as)
  then show ?case by (cases a) auto
qed

lemma line_count_append: "line_count (xs @ ys) = line_count xs + line_count ys"
  by (simp add: line_count_def)

lemma line_count_zero: "line_count xs = 0 \<longleftrightarrow> newline \<notin> set xs"
  by (simp add: line_count_def count_list_0_iff)

section \<open>The claims\<close>

text \<open>
  C1. For every message, every object and every printing function that invokes the
  callback on a finite sequence of chunks and then returns, the call appends to the
  diagnostic stream exactly the message, then the bytes of all chunks in the order the
  callback received them, then one newline.
\<close>

theorem printLLVMError_output:
  assumes "behaves func obj as"
  shows "\<exists>w'. printLLVMError func obj message w = Some w' \<and>
              errs w' = errs w @ message @ concat (received (memory w) as) @ [newline]"
  by (simp add: printLLVMError_behaves [OF assms] errs_def)

theorem printLLVMError_output_witness:
  "behaves (emitter [Emit \<lparr>data = 0, length_ref = 2\<rparr>, Store 0 CHR ''z'',
                     Emit \<lparr>data = 0, length_ref = 3\<rparr>]) ()
     [Emit \<lparr>data = 0, length_ref = 2\<rparr>, Store 0 CHR ''z'', Emit \<lparr>data = 0, length_ref = 3\<rparr>] \<and>
   (\<exists>w'. printLLVMError
           (emitter [Emit \<lparr>data = 0, length_ref = 2\<rparr>, Store 0 CHR ''z'',
                     Emit \<lparr>data = 0, length_ref = 3\<rparr>]) () ''error: '' (world0 ''abc'') = Some w' \<and>
         errs w' = ''error: abzbc'' @ [newline])"
  using printLLVMError_output [OF behaves_emitter,
      of "[Emit \<lparr>data = 0, length_ref = 2\<rparr>, Store 0 CHR ''z'', Emit \<lparr>data = 0, length_ref = 3\<rparr>]"
         "()" "''error: ''" "world0 ''abc''"]
  by (simp add: behaves_emitter world0_def errs_record read_bytes_def memory_of_def upt_rec)

text \<open>
  C2. For every printing function that returns without ever invoking the callback, the
  text the call appends to the diagnostic stream is the message and a newline.
\<close>

theorem printLLVMError_no_chunks:
  assumes "behaves func obj as" and "\<forall>s. Emit s \<notin> set as"
  shows "\<exists>w'. printLLVMError func obj message w = Some w' \<and>
              errs w' = errs w @ message @ [newline]"
  by (simp add: printLLVMError_behaves [OF assms(1)] received_no_Emit [OF assms(2)] errs_def)

theorem printLLVMError_no_chunks_witness:
  "behaves (emitter [Store 1 CHR ''q'']) () [Store 1 CHR ''q''] \<and>
   (\<forall>s. Emit s \<notin> set [Store 1 CHR ''q'']) \<and>
   (\<exists>w'. printLLVMError (emitter [Store 1 CHR ''q'']) () ''failed'' (world0 ''abc'') = Some w' \<and>
         errs w' = ''failed'' @ [newline])"
proof -
  have no: "\<forall>s. Emit s \<notin> set [Store 1 CHR ''q'']" by simp
  from printLLVMError_no_chunks [OF behaves_emitter no, of "()" "''failed''" "world0 ''abc''"]
  show ?thesis by (simp add: behaves_emitter world0_def errs_record)
qed

text \<open>
  C3. The output does not depend on the chunk boundaries: two printing functions whose
  chunk sequences concatenate to the same bytes make the call append the same text, the
  message, those bytes and a newline. The witness is the chunks a, b, c against abc.
\<close>

theorem printLLVMError_chunk_boundaries:
  assumes "behaves func1 obj1 as1" and "behaves func2 obj2 as2"
    and "concat (received (memory w1) as1) = concat (received (memory w2) as2)"
  shows "\<exists>w1' w2' text.
           printLLVMError func1 obj1 message w1 = Some w1' \<and>
           printLLVMError func2 obj2 message w2 = Some w2' \<and>
           errs w1' = errs w1 @ text \<and> errs w2' = errs w2 @ text \<and>
           text = message @ concat (received (memory w1) as1) @ [newline]"
  by (simp add: printLLVMError_behaves [OF assms(1)] printLLVMError_behaves [OF assms(2)] assms(3) errs_def)

theorem printLLVMError_chunk_boundaries_witness:
  "behaves (emitter [Emit \<lparr>data = 0, length_ref = 1\<rparr>, Emit \<lparr>data = 1, length_ref = 1\<rparr>,
                     Emit \<lparr>data = 2, length_ref = 1\<rparr>]) ()
     [Emit \<lparr>data = 0, length_ref = 1\<rparr>, Emit \<lparr>data = 1, length_ref = 1\<rparr>,
      Emit \<lparr>data = 2, length_ref = 1\<rparr>] \<and>
   behaves (emitter [Emit \<lparr>data = 0, length_ref = 3\<rparr>]) () [Emit \<lparr>data = 0, length_ref = 3\<rparr>] \<and>
   received (memory (world0 ''abc''))
     [Emit \<lparr>data = 0, length_ref = 1\<rparr>, Emit \<lparr>data = 1, length_ref = 1\<rparr>,
      Emit \<lparr>data = 2, length_ref = 1\<rparr>] = [''a'', ''b'', ''c''] \<and>
   received (memory (world0 ''abc'')) [Emit \<lparr>data = 0, length_ref = 3\<rparr>] = [''abc''] \<and>
   (\<exists>w1' w2' text.
      printLLVMError (emitter [Emit \<lparr>data = 0, length_ref = 1\<rparr>, Emit \<lparr>data = 1, length_ref = 1\<rparr>,
                               Emit \<lparr>data = 2, length_ref = 1\<rparr>]) () ''msg: '' (world0 ''abc'') = Some w1' \<and>
      printLLVMError (emitter [Emit \<lparr>data = 0, length_ref = 3\<rparr>]) () ''msg: '' (world0 ''abc'') = Some w2' \<and>
      errs w1' = errs (world0 ''abc'') @ text \<and> errs w2' = errs (world0 ''abc'') @ text \<and>
      text = ''msg: '' @ ''abc'' @ [newline])"
proof -
  let ?as1 = "[Emit \<lparr>data = 0, length_ref = 1\<rparr>, Emit \<lparr>data = 1, length_ref = 1\<rparr>,
               Emit \<lparr>data = 2, length_ref = 1\<rparr>]"
  let ?as2 = "[Emit \<lparr>data = 0, length_ref = 3\<rparr>]"
  have r1: "received (memory (world0 ''abc'')) ?as1 = [''a'', ''b'', ''c'']"
    by (simp add: world0_def errs_record read_bytes_def memory_of_def upt_rec)
  have r2: "received (memory (world0 ''abc'')) ?as2 = [''abc'']"
    by (simp add: world0_def errs_record read_bytes_def memory_of_def upt_rec)
  have same: "concat (received (memory (world0 ''abc'')) ?as1) =
              concat (received (memory (world0 ''abc'')) ?as2)"
    by (simp only: r1 r2) simp
  from printLLVMError_chunk_boundaries [where ?obj1.0 = "()" and ?obj2.0 = "()" and message = "''msg: ''",
      OF behaves_emitter behaves_emitter same] r1 r2
  show ?thesis by (simp add: behaves_emitter)
qed


text \<open>
  C4. Every call invokes the supplied printing function exactly once: a printing
  function that counts its own invocations has counted one more after the call, and
  the adapter itself leaves the counter alone.
\<close>

theorem printLLVMError_calls_once:
  assumes "behaves func obj as"
  shows "(\<exists>w'. printLLVMError (counted func) obj message w = Some w' \<and> calls w' = Suc (calls w)) \<and>
         (\<exists>w'. printLLVMError func obj message w = Some w' \<and> calls w' = calls w)"
proof -
  let ?ss = "length (sstreams w)"
  let ?w2 = "w\<lparr>sstreams := sstreams w @ [message], calls := Suc (calls w)\<rparr>"
  have live: "?ss < length (sstreams ?w2)" by simp
  from assms have "func obj stringCallback ?ss ?w2 = perform stringCallback ?ss as ?w2"
    by (simp add: behaves_def)
  also note perform_stringCallback [OF live]
  finally have "\<exists>w'. printLLVMError (counted func) obj message w = Some w' \<and> calls w' = Suc (calls w)"
    by (simp add: printLLVMError_unfold counted_def)
  moreover have "\<exists>w'. printLLVMError func obj message w = Some w' \<and> calls w' = calls w"
    by (simp add: printLLVMError_behaves [OF assms])
  ultimately show ?thesis by simp
qed

theorem printLLVMError_calls_once_witness:
  "behaves (emitter [Emit \<lparr>data = 0, length_ref = 3\<rparr>]) () [Emit \<lparr>data = 0, length_ref = 3\<rparr>] \<and>
   (\<exists>w'. printLLVMError (counted (emitter [Emit \<lparr>data = 0, length_ref = 3\<rparr>])) () ''msg''
           (world0 ''abc'') = Some w' \<and> calls w' = Suc 0) \<and>
   (\<exists>w'. printLLVMError (emitter [Emit \<lparr>data = 0, length_ref = 3\<rparr>]) () ''msg''
           (world0 ''abc'') = Some w' \<and> calls w' = 0)"
  using printLLVMError_calls_once [where func = "emitter [Emit \<lparr>data = 0, length_ref = 3\<rparr>]"
      and obj = "()" and message = "''msg''" and w = "world0 ''abc''", OF behaves_emitter]
  by (simp add: behaves_emitter world0_def errs_record)

text \<open>
  C5. The callback copies a chunk by its explicit length: for a chunk of \<open>n\<close> bytes at
  \<open>p\<close> it appends to the accumulator exactly the \<open>n\<close> bytes at \<open>p\<close>, ..., \<open>p + n - 1\<close>,
  whatever their values (zero bytes and partial UTF-8 sequences included), and the call
  prints them in full. The witness is the chunk a, 0x00, b, 0xE2, 0x82.
\<close>

theorem stringCallback_explicit_length:
  assumes "behaves func obj [Emit s]"
  shows "\<exists>bs w'. length bs = length_ref s \<and> (\<forall>i<length_ref s. bs ! i = memory w (data s + i)) \<and>
           stringCallback s (length (sstreams w)) (w\<lparr>sstreams := sstreams w @ [message]\<rparr>) =
             Some (w\<lparr>sstreams := sstreams w @ [message @ bs]\<rparr>) \<and>
           printLLVMError func obj message w = Some w' \<and>
           errs w' = errs w @ message @ bs @ [newline]"
proof -
  let ?bs = "read_bytes (memory w) (data s) (length_ref s)"
  have "length ?bs = length_ref s" by (rule length_read_bytes)
  moreover have "\<forall>i<length_ref s. ?bs ! i = memory w (data s + i)" by (simp add: nth_read_bytes)
  moreover have "stringCallback s (length (sstreams w)) (w\<lparr>sstreams := sstreams w @ [message]\<rparr>) =
      Some (w\<lparr>sstreams := sstreams w @ [message @ ?bs]\<rparr>)"
    by (simp add: stringCallback_live)
  moreover have "\<exists>w'. printLLVMError func obj message w = Some w' \<and>
      errs w' = errs w @ message @ ?bs @ [newline]"
    by (simp add: printLLVMError_behaves [OF assms] errs_def)
  ultimately show ?thesis by blast
qed

theorem stringCallback_explicit_length_witness:
  "behaves (emitter [Emit \<lparr>data = 0, length_ref = 5\<rparr>]) () [Emit \<lparr>data = 0, length_ref = 5\<rparr>] \<and>
   (\<exists>bs w'. length bs = 5 \<and>
      bs = [CHR ''a'', CHR 0x00, CHR ''b'', CHR 0xE2, CHR 0x82] \<and>
      printLLVMError (emitter [Emit \<lparr>data = 0, length_ref = 5\<rparr>]) () ''msg: ''
        (world0 [CHR ''a'', CHR 0x00, CHR ''b'', CHR 0xE2, CHR 0x82, CHR 0xAC]) = Some w' \<and>
      errs w' = ''msg: '' @ [CHR ''a'', CHR 0x00, CHR ''b'', CHR 0xE2, CHR 0x82] @ [newline])"
proof -
  let ?w = "world0 [CHR ''a'', CHR 0x00, CHR ''b'', CHR 0xE2, CHR 0x82, CHR 0xAC]"
  let ?s = "\<lparr>data = 0, length_ref = 5\<rparr>"
  from stringCallback_explicit_length [where func = "emitter [Emit ?s]" and obj = "()"
      and s = ?s and message = "''msg: ''" and w = ?w, OF behaves_emitter]
  obtain bs w' where len: "length bs = 5"
    and bytes: "\<forall>i<5. bs ! i = memory ?w i"
    and out: "printLLVMError (emitter [Emit ?s]) () ''msg: '' ?w = Some w'"
      "errs w' = errs ?w @ ''msg: '' @ bs @ [newline]"
    by auto
  have "bs = map (\<lambda>i. bs ! i) [0..<5]"
    using len by (metis map_nth)
  also have "\<dots> = [CHR ''a'', CHR 0x00, CHR ''b'', CHR 0xE2, CHR 0x82]"
    using bytes by (simp add: upt_rec world0_def errs_record memory_of_def)
  finally have "bs = [CHR ''a'', CHR 0x00, CHR ''b'', CHR 0xE2, CHR 0x82]" .
  with len out show ?thesis by (simp add: behaves_emitter world0_def errs_record)
qed

text \<open>
  C6 (as stated: every call writes to the diagnostic stream, and what it writes is
  exactly one line). The first half holds. The second fails when the message or a chunk
  holds a newline byte: with the message a, newline, b and no chunks the call prints
  two lines.
\<close>

theorem printLLVMError_one_line_counterexample:
  "map_option errs (printLLVMError (emitter []) () [CHR ''a'', newline, CHR ''b''] (world0 [])) =
     Some [CHR ''a'', newline, CHR ''b'', newline] \<and>
   line_count [CHR ''a'', newline, CHR ''b'', newline] = 2"
  by (simp add: printLLVMError_unfold emitter_def world0_def errs_record line_count_def newline_def)

text \<open>
  C6 (amended). Every call appends its output to the diagnostic stream, and the output
  ends with one newline that the call adds: it has one line more than the message and
  the chunks hold newline bytes, so it is exactly one line if and only if neither the
  message nor a chunk holds a newline byte.
\<close>

theorem printLLVMError_line_count:
  assumes "behaves func obj as"
  shows "\<exists>w' text. printLLVMError func obj message w = Some w' \<and>
           errs w' = errs w @ text \<and> text \<noteq> [] \<and> last text = newline \<and>
           line_count text = Suc (line_count message + line_count (concat (received (memory w) as))) \<and>
           (line_count text = 1 \<longleftrightarrow>
              newline \<notin> set message \<and> newline \<notin> set (concat (received (memory w) as)))"
proof -
  let ?chunks = "concat (received (memory w) as)"
  let ?text = "message @ ?chunks @ [newline]"
  have count: "line_count ?text = Suc (line_count message + line_count ?chunks)"
    by (simp add: line_count_append) (simp add: line_count_def)
  have "line_count ?text = 1 \<longleftrightarrow> line_count message = 0 \<and> line_count ?chunks = 0"
    by (simp only: count) simp
  then have one: "line_count ?text = 1 \<longleftrightarrow> newline \<notin> set message \<and> newline \<notin> set ?chunks"
    by (simp only: line_count_zero)
  let ?w' = "w\<lparr>memory := stores as (memory w), errs_log := errs_log w @ [message @ ?chunks, [newline]]\<rparr>"
  have "printLLVMError func obj message w = Some ?w'"
    by (rule printLLVMError_behaves [OF assms])
  moreover have "errs ?w' = errs w @ ?text"
    by (simp add: errs_after_call)
  ultimately have "printLLVMError func obj message w = Some ?w' \<and>
    errs ?w' = errs w @ ?text \<and> ?text \<noteq> [] \<and> last ?text = newline"
    by simp
  with count one show ?thesis by blast
qed

theorem printLLVMError_line_count_witness:
  "behaves (emitter [Emit \<lparr>data = 0, length_ref = 3\<rparr>]) () [Emit \<lparr>data = 0, length_ref = 3\<rparr>] \<and>
   (\<exists>w' text. printLLVMError (emitter [Emit \<lparr>data = 0, length_ref = 3\<rparr>]) () ''msg: ''
        (world0 ''abc'') = Some w' \<and>
      errs w' = text \<and> last text = newline \<and> line_count text = 1)"
  using printLLVMError_line_count [where func = "emitter [Emit \<lparr>data = 0, length_ref = 3\<rparr>]"
      and obj = "()" and message = "''msg: ''" and w = "world0 ''abc''", OF behaves_emitter]
  by (auto simp add: behaves_emitter world0_def errs_record read_bytes_def memory_of_def upt_rec newline_def)

text \<open>
  C7. The call returns no value, and a call with a well-behaved printing function
  changes nothing but the diagnostic stream: afterwards the state is the state before
  with the output appended to the diagnostic stream, up to the stores the printing
  function itself made. The live streams and the counter are as before; with a
  printing function that makes no stores, so is the memory. The diagnostic stream is
  the field \<open>errs_log\<close>.
\<close>

theorem printLLVMError_frame:
  assumes "behaves func obj as"
  shows "\<exists>w'. printLLVMError func obj message w = Some w' \<and>
           w' = w\<lparr>memory := stores as (memory w), errs_log := errs_log w'\<rparr> \<and>
           sstreams w' = sstreams w \<and> calls w' = calls w \<and>
           ((\<forall>p b. Store p b \<notin> set as) \<longrightarrow> w' = w\<lparr>errs_log := errs_log w'\<rparr>)"
proof -
  have "(\<forall>p b. Store p b \<notin> set as) \<longrightarrow> stores as (memory w) = memory w"
    by (simp add: stores_no_Store)
  then show ?thesis
    by (auto simp add: printLLVMError_behaves [OF assms])
qed

theorem printLLVMError_frame_witness:
  "behaves (emitter [Emit \<lparr>data = 0, length_ref = 3\<rparr>]) () [Emit \<lparr>data = 0, length_ref = 3\<rparr>] \<and>
   (\<forall>p b. Store p b \<notin> set [Emit \<lparr>data = 0, length_ref = 3\<rparr>]) \<and>
   (\<exists>w'. printLLVMError (emitter [Emit \<lparr>data = 0, length_ref = 3\<rparr>]) () ''msg: ''
        (world0 ''abc'') = Some w' \<and>
      w' = (world0 ''abc'')\<lparr>errs_log := errs_log w'\<rparr> \<and> sstreams w' = [] \<and> calls w' = 0)"
  using printLLVMError_frame [where func = "emitter [Emit \<lparr>data = 0, length_ref = 3\<rparr>]"
      and obj = "()" and message = "''msg: ''" and w = "world0 ''abc''", OF behaves_emitter]
  by (auto simp add: behaves_emitter world0_def errs_record)

text \<open>
  C8. If the printing function terminates (it invokes the callback finitely often and
  returns), the call terminates: it returns a final state.
\<close>

theorem printLLVMError_returns:
  assumes "behaves func obj as"
  shows "\<exists>w'. printLLVMError func obj message w = Some w'"
  by (simp add: printLLVMError_behaves [OF assms])

theorem printLLVMError_returns_witness:
  "behaves (emitter [Emit \<lparr>data = 0, length_ref = 3\<rparr>, Emit \<lparr>data = 1, length_ref = 2\<rparr>]) ()
     [Emit \<lparr>data = 0, length_ref = 3\<rparr>, Emit \<lparr>data = 1, length_ref = 2\<rparr>] \<and>
   (\<exists>w'. printLLVMError (emitter [Emit \<lparr>data = 0, length_ref = 3\<rparr>, Emit \<lparr>data = 1, length_ref = 2\<rparr>])
          () ''msg: '' (world0 ''abc'') = Some w')"
  using printLLVMError_returns [where func = "emitter [Emit \<lparr>data = 0, length_ref = 3\<rparr>, Emit \<lparr>data = 1, length_ref = 2\<rparr>]"
      and obj = "()" and message = "''msg: ''" and w = "world0 ''abc''", OF behaves_emitter]
  by (simp add: behaves_emitter)

text \<open>
  C9. The output is determined by the message and the chunk byte strings: two calls
  with the same message whose printing functions emit the same sequence of byte strings
  append the same text to the diagnostic stream, whatever else differs (the functions,
  the objects, the chunk addresses, the state).
\<close>

theorem printLLVMError_deterministic:
  assumes "behaves func1 obj1 as1" and "behaves func2 obj2 as2"
    and "received (memory w1) as1 = received (memory w2) as2"
  shows "\<exists>w1' w2' text.
           printLLVMError func1 obj1 message w1 = Some w1' \<and>
           printLLVMError func2 obj2 message w2 = Some w2' \<and>
           errs w1' = errs w1 @ text \<and> errs w2' = errs w2 @ text"
  by (simp add: printLLVMError_behaves [OF assms(1)] printLLVMError_behaves [OF assms(2)] assms(3) errs_def)

theorem printLLVMError_deterministic_witness:
  "behaves (emitter [Emit \<lparr>data = 0, length_ref = 2\<rparr>]) () [Emit \<lparr>data = 0, length_ref = 2\<rparr>] \<and>
   behaves (emitter [Emit \<lparr>data = 1, length_ref = 2\<rparr>]) True [Emit \<lparr>data = 1, length_ref = 2\<rparr>] \<and>
   received (memory (world0 ''abc'')) [Emit \<lparr>data = 0, length_ref = 2\<rparr>] =
     received (memory ((world0 ''xab'')\<lparr>errs_log := [''old'']\<rparr>)) [Emit \<lparr>data = 1, length_ref = 2\<rparr>] \<and>
   (\<exists>w1' w2' text.
      printLLVMError (emitter [Emit \<lparr>data = 0, length_ref = 2\<rparr>]) () ''msg: '' (world0 ''abc'') = Some w1' \<and>
      printLLVMError (emitter [Emit \<lparr>data = 1, length_ref = 2\<rparr>]) True ''msg: ''
        ((world0 ''xab'')\<lparr>errs_log := [''old'']\<rparr>) = Some w2' \<and>
      errs w1' = text \<and> errs w2' = ''old'' @ text)"
proof -
  have same: "received (memory (world0 ''abc'')) [Emit \<lparr>data = 0, length_ref = 2\<rparr>] =
      received (memory ((world0 ''xab'')\<lparr>errs_log := [''old'']\<rparr>)) [Emit \<lparr>data = 1, length_ref = 2\<rparr>]"
    by (simp add: world0_def errs_record read_bytes_def memory_of_def upt_rec)
  from printLLVMError_deterministic [where ?obj1.0 = "()" and ?obj2.0 = True and message = "''msg: ''",
      OF behaves_emitter behaves_emitter same] same
  show ?thesis by (simp add: behaves_emitter) (simp add: world0_def errs_record)
qed

text \<open>
  C10 (as stated: nothing reaches the diagnostic stream before the printing function
  has returned, and the whole text, message, chunks and newline, is then emitted in a
  single flush). The first half holds. The second fails: the output statement makes two
  insertions into the diagnostic stream, the accumulated text and then the newline.
\<close>

theorem printLLVMError_single_flush_counterexample:
  "map_option errs_log
     (printLLVMError (emitter [Emit \<lparr>data = 0, length_ref = 3\<rparr>]) () ''msg: '' (world0 ''abc'')) =
     Some [''msg: abc'', [newline]] \<and>
   length [''msg: abc'', [newline]] = 2"
  by (simp add: printLLVMError_unfold emitter_def world0_def errs_record stringCallback_def sstream_insert_def
      read_bytes_def memory_of_def upt_rec)

text \<open>
  C10 (amended). Nothing reaches the diagnostic stream before the printing function has
  returned: a printing function that looks at the diagnostic stream when it is entered,
  after every callback invocation and before it returns sees, every time, the stream
  as it was when \<open>printLLVMError\<close> was called. For it and for every well-behaved
  printing function, the message and all chunks are buffered in the accumulator; after
  the printing function has returned they are emitted together as one insertion,
  followed by the newline as a second insertion, and the call makes no other insertion.
\<close>

theorem printLLVMError_buffers:
  "printLLVMError (observing P as) obj message w =
     (if P (errs_log w)
      then Some (w\<lparr>memory := stores as (memory w),
                    errs_log := errs_log w @ [message @ concat (received (memory w) as), [newline]]\<rparr>)
      else None) \<and>
   (behaves func obj' as \<longrightarrow>
      printLLVMError func obj' message w =
        Some (w\<lparr>memory := stores as (memory w),
                 errs_log := errs_log w @ [message @ concat (received (memory w) as), [newline]]\<rparr>))"
  by (simp add: printLLVMError_observing printLLVMError_behaves)

theorem printLLVMError_buffers_witness:
  "map_option errs_log
     (printLLVMError
        (observing (\<lambda>l. l = [''old''])
           [Emit \<lparr>data = 0, length_ref = 2\<rparr>, Store 2 CHR ''z'', Emit \<lparr>data = 2, length_ref = 1\<rparr>])
        () ''msg: '' ((world0 ''abc'')\<lparr>errs_log := [''old'']\<rparr>)) =
     Some [''old'', ''msg: abz'', [newline]] \<and>
   printLLVMError
     (observing (\<lambda>l. l = [])
        [Emit \<lparr>data = 0, length_ref = 2\<rparr>, Store 2 CHR ''z'', Emit \<lparr>data = 2, length_ref = 1\<rparr>])
     () ''msg: '' ((world0 ''abc'')\<lparr>errs_log := [''old'']\<rparr>) = None \<and>
   behaves (emitter [Emit \<lparr>data = 0, length_ref = 2\<rparr>, Store 2 CHR ''z'', Emit \<lparr>data = 2, length_ref = 1\<rparr>])
     True [Emit \<lparr>data = 0, length_ref = 2\<rparr>, Store 2 CHR ''z'', Emit \<lparr>data = 2, length_ref = 1\<rparr>] \<and>
   map_option errs_log
     (printLLVMError
        (emitter [Emit \<lparr>data = 0, length_ref = 2\<rparr>, Store 2 CHR ''z'', Emit \<lparr>data = 2, length_ref = 1\<rparr>])
        True ''msg: '' ((world0 ''abc'')\<lparr>errs_log := [''old'']\<rparr>)) =
     Some [''old'', ''msg: abz'', [newline]]"
proof -
  let ?as = "[Emit \<lparr>data = 0, length_ref = 2\<rparr>, Store 2 CHR ''z'', Emit \<lparr>data = 2, length_ref = 1\<rparr>]"
  let ?w = "(world0 ''abc'')\<lparr>errs_log := [''old'']\<rparr>"
  have b: "behaves (emitter ?as) True ?as" by (rule behaves_emitter)
  from printLLVMError_buffers [where P = "\<lambda>l. l = [''old'']" and as = ?as and obj = "()"
      and message = "''msg: ''" and w = ?w and func = "emitter ?as" and obj' = True]
    printLLVMError_buffers [where P = "\<lambda>l. l = []" and as = ?as and obj = "()"
      and message = "''msg: ''" and w = ?w and func = "emitter ?as" and obj' = True] b
  show ?thesis
    by (simp add: world0_def read_bytes_def memory_of_def upt_rec)
qed

end
